theory Spec2Isabelle
  imports Main "HOL-Library.Word" "HOL-Library.Code_Target_Nat"
begin

unbundle bit_operations_syntax

section \<open>Limbs and field elements\<close>

text \<open>
  \<^verbatim>\<open>typedef uint64_t fe_limb;\<close> A limb is a 64-bit unsigned machine word; the
  multiplicative accumulators are \<^verbatim>\<open>__uint128_t\<close>. A field element is a C array of
  five limbs, index 0 least significant, modelled as a list read with \<open>!\<close>.
  The functions never check the length or the magnitude of what they are handed.
\<close>

type_synonym fe_limb = "64 word"
type_synonym u128 = "128 word"

text \<open>\<^verbatim>\<open>#define MASK52 0xFFFFFFFFFFFFFULL\<close>: thirteen hex digits F, an
  \<^verbatim>\<open>unsigned long long\<close> constant. Where it meets a 128-bit operand C converts it
  to 128 bits by zero extension, written \<open>ucast MASK52\<close> below.\<close>

definition MASK52 :: "fe_limb" where
  "MASK52 = 0xFFFFFFFFFFFFF"

text \<open>The documented input invariant: exactly five limbs, each strictly below \<open>2^52\<close>.
  It is a predicate of the callers' obligations; neither multiplier tests it.\<close>

definition fe_valid :: "fe_limb list \<Rightarrow> bool" where
  "fe_valid a \<longleftrightarrow> length a = 5 \<and> list_all (\<lambda>x. x < 2 ^ 52) a"

section \<open>Schoolbook multiplication\<close>

text \<open>
  \<^verbatim>\<open>fe_mul_schoolbook\<close>, statement by statement. \<open>tmp\<close> is the local array
  \<^verbatim>\<open>__uint128_t tmp[9] = {0}\<close>; every \<^verbatim>\<open>(__uint128_t)a[i]*b[j]\<close> widens both
  operands before a 128-bit multiplication; \<^verbatim>\<open>>> 52\<close> is \<open>drop_bit 52\<close>; the cast
  \<^verbatim>\<open>(fe_limb)\<close> truncates to 64 bits. All reads of \<open>a\<close> and \<open>b\<close> happen before
  the first write to \<open>r\<close>, and exactly \<open>r[0..4]\<close> are written, so what the caller
  observes is those five limbs. \<open>schoolbook_run\<close> is the body: it yields the final
  contents of the local array together with the limbs written; \<open>fe_mul_schoolbook\<close> is
  the caller's view, the output buffer alone.
\<close>

record schoolbook_locals =
  sb_tmp :: "u128 list"
  sb_r :: "fe_limb list"

definition schoolbook_run :: "fe_limb list \<Rightarrow> fe_limb list \<Rightarrow> schoolbook_locals" where
  "schoolbook_run a b =
    (let tmp = replicate 9 (0 :: u128);
         tmp = tmp[0 := ucast (a ! 0) * ucast (b ! 0)];
         tmp = tmp[1 := ucast (a ! 0) * ucast (b ! 1) + ucast (a ! 1) * ucast (b ! 0)];
         tmp = tmp[2 := ucast (a ! 0) * ucast (b ! 2) + ucast (a ! 1) * ucast (b ! 1)
                      + ucast (a ! 2) * ucast (b ! 0)];
         tmp = tmp[3 := ucast (a ! 0) * ucast (b ! 3) + ucast (a ! 1) * ucast (b ! 2)
                      + ucast (a ! 2) * ucast (b ! 1) + ucast (a ! 3) * ucast (b ! 0)];
         tmp = tmp[4 := ucast (a ! 0) * ucast (b ! 4) + ucast (a ! 1) * ucast (b ! 3)
                      + ucast (a ! 2) * ucast (b ! 2) + ucast (a ! 3) * ucast (b ! 1)
                      + ucast (a ! 4) * ucast (b ! 0)];
         tmp = tmp[5 := ucast (a ! 1) * ucast (b ! 4) + ucast (a ! 2) * ucast (b ! 3)
                      + ucast (a ! 3) * ucast (b ! 2) + ucast (a ! 4) * ucast (b ! 1)];
         tmp = tmp[6 := ucast (a ! 2) * ucast (b ! 4) + ucast (a ! 3) * ucast (b ! 3)
                      + ucast (a ! 4) * ucast (b ! 2)];
         tmp = tmp[7 := ucast (a ! 3) * ucast (b ! 4) + ucast (a ! 4) * ucast (b ! 3)];
         tmp = tmp[8 := ucast (a ! 4) * ucast (b ! 4)];
         r0 = (ucast (tmp ! 0 AND ucast MASK52) :: fe_limb); carry = drop_bit 52 (tmp ! 0);
         tmp = tmp[1 := tmp ! 1 + carry];
         r1 = (ucast (tmp ! 1 AND ucast MASK52) :: fe_limb); carry = drop_bit 52 (tmp ! 1);
         tmp = tmp[2 := tmp ! 2 + carry];
         r2 = (ucast (tmp ! 2 AND ucast MASK52) :: fe_limb); carry = drop_bit 52 (tmp ! 2);
         tmp = tmp[3 := tmp ! 3 + carry];
         r3 = (ucast (tmp ! 3 AND ucast MASK52) :: fe_limb); carry = drop_bit 52 (tmp ! 3);
         tmp = tmp[4 := tmp ! 4 + carry];
         r4 = (ucast (tmp ! 4 AND ucast MASK52) :: fe_limb)
     in \<lparr>sb_tmp = tmp, sb_r = [r0, r1, r2, r3, r4]\<rparr>)"

definition fe_mul_schoolbook :: "fe_limb list \<Rightarrow> fe_limb list \<Rightarrow> fe_limb list" where
  "fe_mul_schoolbook a b = sb_r (schoolbook_run a b)"

section \<open>Karatsuba multiplication\<close>

text \<open>
  \<^verbatim>\<open>fe_mul_karatsuba_opt\<close>. In \<^verbatim>\<open>(__uint128_t)(a[0]+a[1])*(b[0]+b[1])\<close> the cast
  applies to the parenthesised sum, and the second factor is a sum of \<^verbatim>\<open>uint64_t\<close>
  as well: both sums are formed in 64 bits (wrapping modulo \<open>2^64\<close>) and only then
  widened. \<^verbatim>\<open>p10 << 1\<close> is \<open>push_bit 1 p10\<close>. The additions and subtractions of the
  coefficients are 128-bit and wrap. \<open>karatsuba_run\<close> is the body, yielding the final
  values of the coefficient variables \<open>c0..c8\<close> and the limbs written;
  \<open>fe_mul_karatsuba_opt\<close> is the caller's view.
\<close>

record karatsuba_locals =
  k_c0 :: u128
  k_c1 :: u128
  k_c2 :: u128
  k_c3 :: u128
  k_c4 :: u128
  k_c5 :: u128
  k_c6 :: u128
  k_c7 :: u128
  k_c8 :: u128
  k_r :: "fe_limb list"

definition karatsuba_run :: "fe_limb list \<Rightarrow> fe_limb list \<Rightarrow> karatsuba_locals" where
  "karatsuba_run a b =
    (let p1 = (ucast (a ! 0) * ucast (b ! 0) :: u128);
         p2 = (ucast (a ! 0 + a ! 1) * ucast (b ! 0 + b ! 1) :: u128);
         p3 = (ucast (a ! 1) * ucast (b ! 1) :: u128);
         p4 = (ucast (a ! 0 + a ! 2) * ucast (b ! 0 + b ! 2) :: u128);
         p5 = (ucast (a ! 0 + a ! 1 + a ! 2 + a ! 3) * ucast (b ! 0 + b ! 1 + b ! 2 + b ! 3) :: u128);
         p6 = (ucast (a ! 1 + a ! 3) * ucast (b ! 1 + b ! 3) :: u128);
         p7 = (ucast (a ! 0 + a ! 2 + a ! 4) * ucast (b ! 0 + b ! 2 + b ! 4) :: u128);
         p8 = (ucast (a ! 4) * ucast (b ! 4) :: u128);
         p9 = (ucast (a ! 1 + a ! 3 + a ! 4) * ucast (b ! 1 + b ! 3 + b ! 4) :: u128);
         p10 = (ucast (a ! 2) * ucast (b ! 2) :: u128);
         p11 = (ucast (a ! 2 + a ! 3) * ucast (b ! 2 + b ! 3) :: u128);
         p12 = (ucast (a ! 3) * ucast (b ! 3) :: u128);
         p13 = (ucast (a ! 2 + a ! 4) * ucast (b ! 2 + b ! 4) :: u128);
         p14 = (ucast (a ! 3 + a ! 4) * ucast (b ! 3 + b ! 4) :: u128);
         S1 = p1 + p3;
         S3 = p10 - p8;
         c0 = p1;
         c1 = p2 - S1;
         c2 = p3 + p4 - p1 - p10;
         c3 = p5 - p2 + S1 - p4 - p6 - p11 + p10 + p12;
         c4 = p7 - p4 + p6 - p3 - p13 + push_bit 1 p10 - p12;
         c5 = p9 - p6 + p11 - p10 - p14;
         c6 = p13 + p12 - S3;
         c7 = p14 - p12 - p8;
         c8 = p8;
         c1 = c1 + drop_bit 52 c0; r0 = (ucast (c0 AND ucast MASK52) :: fe_limb);
         c2 = c2 + drop_bit 52 c1; r1 = (ucast (c1 AND ucast MASK52) :: fe_limb);
         c3 = c3 + drop_bit 52 c2; r2 = (ucast (c2 AND ucast MASK52) :: fe_limb);
         c4 = c4 + drop_bit 52 c3; r3 = (ucast (c3 AND ucast MASK52) :: fe_limb);
         c5 = c5 + drop_bit 52 c4; r4 = (ucast (c4 AND ucast MASK52) :: fe_limb)
     in \<lparr>k_c0 = c0, k_c1 = c1, k_c2 = c2, k_c3 = c3, k_c4 = c4, k_c5 = c5, k_c6 = c6,
         k_c7 = c7, k_c8 = c8, k_r = [r0, r1, r2, r3, r4]\<rparr>)"

definition fe_mul_karatsuba_opt :: "fe_limb list \<Rightarrow> fe_limb list \<Rightarrow> fe_limb list" where
  "fe_mul_karatsuba_opt a b = k_r (karatsuba_run a b)"

section \<open>The variants without the unused high-order work\<close>

text \<open>
  Neither function reads \<^verbatim>\<open>tmp[5..8]\<close>, respectively \<^verbatim>\<open>c5..c8\<close>, after computing
  them. The two variants below are the bodies above with exactly those statements
  removed: in the schoolbook body the four assignments to \<^verbatim>\<open>tmp[5]\<close> .. \<^verbatim>\<open>tmp[8]\<close>
  (the array stays zero there), in the Karatsuba body the definitions of \<open>c5\<close>, \<open>c6\<close>,
  \<open>c7\<close>, \<open>c8\<close> and the final \<^verbatim>\<open>c5 += c4 >> 52\<close> (the products \<open>p8\<close>, \<open>p9\<close>,
  \<open>p14\<close> and \<open>S3\<close>, which then feed nothing, are left in place). They are not part
  of the repository; they state what "omitting the dead work" means.
\<close>

definition schoolbook_lean_run :: "fe_limb list \<Rightarrow> fe_limb list \<Rightarrow> schoolbook_locals" where
  "schoolbook_lean_run a b =
    (let tmp = replicate 9 (0 :: u128);
         tmp = tmp[0 := ucast (a ! 0) * ucast (b ! 0)];
         tmp = tmp[1 := ucast (a ! 0) * ucast (b ! 1) + ucast (a ! 1) * ucast (b ! 0)];
         tmp = tmp[2 := ucast (a ! 0) * ucast (b ! 2) + ucast (a ! 1) * ucast (b ! 1)
                      + ucast (a ! 2) * ucast (b ! 0)];
         tmp = tmp[3 := ucast (a ! 0) * ucast (b ! 3) + ucast (a ! 1) * ucast (b ! 2)
                      + ucast (a ! 2) * ucast (b ! 1) + ucast (a ! 3) * ucast (b ! 0)];
         tmp = tmp[4 := ucast (a ! 0) * ucast (b ! 4) + ucast (a ! 1) * ucast (b ! 3)
                      + ucast (a ! 2) * ucast (b ! 2) + ucast (a ! 3) * ucast (b ! 1)
                      + ucast (a ! 4) * ucast (b ! 0)];
         r0 = (ucast (tmp ! 0 AND ucast MASK52) :: fe_limb); carry = drop_bit 52 (tmp ! 0);
         tmp = tmp[1 := tmp ! 1 + carry];
         r1 = (ucast (tmp ! 1 AND ucast MASK52) :: fe_limb); carry = drop_bit 52 (tmp ! 1);
         tmp = tmp[2 := tmp ! 2 + carry];
         r2 = (ucast (tmp ! 2 AND ucast MASK52) :: fe_limb); carry = drop_bit 52 (tmp ! 2);
         tmp = tmp[3 := tmp ! 3 + carry];
         r3 = (ucast (tmp ! 3 AND ucast MASK52) :: fe_limb); carry = drop_bit 52 (tmp ! 3);
         tmp = tmp[4 := tmp ! 4 + carry];
         r4 = (ucast (tmp ! 4 AND ucast MASK52) :: fe_limb)
     in \<lparr>sb_tmp = tmp, sb_r = [r0, r1, r2, r3, r4]\<rparr>)"

definition fe_mul_schoolbook_lean :: "fe_limb list \<Rightarrow> fe_limb list \<Rightarrow> fe_limb list" where
  "fe_mul_schoolbook_lean a b = sb_r (schoolbook_lean_run a b)"

definition fe_mul_karatsuba_lean :: "fe_limb list \<Rightarrow> fe_limb list \<Rightarrow> fe_limb list" where
  "fe_mul_karatsuba_lean a b =
    (let p1 = (ucast (a ! 0) * ucast (b ! 0) :: u128);
         p2 = (ucast (a ! 0 + a ! 1) * ucast (b ! 0 + b ! 1) :: u128);
         p3 = (ucast (a ! 1) * ucast (b ! 1) :: u128);
         p4 = (ucast (a ! 0 + a ! 2) * ucast (b ! 0 + b ! 2) :: u128);
         p5 = (ucast (a ! 0 + a ! 1 + a ! 2 + a ! 3) * ucast (b ! 0 + b ! 1 + b ! 2 + b ! 3) :: u128);
         p6 = (ucast (a ! 1 + a ! 3) * ucast (b ! 1 + b ! 3) :: u128);
         p7 = (ucast (a ! 0 + a ! 2 + a ! 4) * ucast (b ! 0 + b ! 2 + b ! 4) :: u128);
         p8 = (ucast (a ! 4) * ucast (b ! 4) :: u128);
         p9 = (ucast (a ! 1 + a ! 3 + a ! 4) * ucast (b ! 1 + b ! 3 + b ! 4) :: u128);
         p10 = (ucast (a ! 2) * ucast (b ! 2) :: u128);
         p11 = (ucast (a ! 2 + a ! 3) * ucast (b ! 2 + b ! 3) :: u128);
         p12 = (ucast (a ! 3) * ucast (b ! 3) :: u128);
         p13 = (ucast (a ! 2 + a ! 4) * ucast (b ! 2 + b ! 4) :: u128);
         p14 = (ucast (a ! 3 + a ! 4) * ucast (b ! 3 + b ! 4) :: u128);
         S1 = p1 + p3;
         S3 = p10 - p8;
         c0 = p1;
         c1 = p2 - S1;
         c2 = p3 + p4 - p1 - p10;
         c3 = p5 - p2 + S1 - p4 - p6 - p11 + p10 + p12;
         c4 = p7 - p4 + p6 - p3 - p13 + push_bit 1 p10 - p12;
         c1 = c1 + drop_bit 52 c0; r0 = (ucast (c0 AND ucast MASK52) :: fe_limb);
         c2 = c2 + drop_bit 52 c1; r1 = (ucast (c1 AND ucast MASK52) :: fe_limb);
         c3 = c3 + drop_bit 52 c2; r2 = (ucast (c2 AND ucast MASK52) :: fe_limb);
         c4 = c4 + drop_bit 52 c3; r3 = (ucast (c3 AND ucast MASK52) :: fe_limb);
         r4 = (ucast (c4 AND ucast MASK52) :: fe_limb)
     in [r0, r1, r2, r3, r4])"

section \<open>The harness\<close>

text \<open>
  The operand arrays of \<^verbatim>\<open>main\<close>, as written there: raw 64-bit constants, handed to
  the multipliers unmasked. Every call the harness makes (the warm-up and the timed
  repetitions) passes these same arrays and overwrites the same result buffer, and the
  multipliers keep no state, so \<^verbatim>\<open>r1\<close> and \<^verbatim>\<open>r2\<close> at the comparison are the results
  of one call each. \<open>main_ok\<close> is the comparison loop
  \<^verbatim>\<open>int ok = 1; for(i=0;i<5;i++) if(r1[i] != r2[i]) ok = 0;\<close>.
\<close>

definition main_a :: "fe_limb list" where
  "main_a = [0x123456789ABCDEF0, 0x0FEDCBA987654321, 0x1111111111111111,
             0x2222222222222222, 0x3333333333333333]"

definition main_b :: "fe_limb list" where
  "main_b = [0x1111111111111111, 0x2222222222222222, 0x3333333333333333,
             0x4444444444444444, 0x5555555555555555]"

definition main_ok :: int where
  "main_ok =
    (let r1 = fe_mul_schoolbook main_a main_b;
         r2 = fe_mul_karatsuba_opt main_a main_b
     in fold (\<lambda>i ok. if r1 ! i \<noteq> r2 ! i then 0 else ok) [0..<5] 1)"

section \<open>The reference definition of the specification\<close>

text \<open>
  The specification's description of the convolution multiplier, in exact arithmetic on
  natural numbers: nine convolution sums \<open>t[k] = \<Sum> a[i] * b[j]\<close> over \<open>i + j = k\<close>;
  then, for \<open>i\<close> from 0 to 3, \<open>r[i] = x[i] mod 2^52\<close> and
  \<open>x[i+1] += x[i] div 2^52\<close>; finally \<open>r[4] = x[4] mod 2^52\<close>. These definitions
  follow the specification's words and are what the code is compared with.
\<close>

definition conv_sum :: "nat list \<Rightarrow> nat list \<Rightarrow> nat \<Rightarrow> nat" where
  "conv_sum a b k = (\<Sum>i\<leftarrow>[0..<5]. \<Sum>j\<leftarrow>[0..<5]. if i + j = k then a ! i * b ! j else 0)"

definition carry_step :: "nat \<Rightarrow> nat list \<times> nat list \<Rightarrow> nat list \<times> nat list" where
  "carry_step i s =
    (case s of (x, r) \<Rightarrow> (x[i + 1 := x ! (i + 1) + x ! i div 2 ^ 52], r[i := x ! i mod 2 ^ 52]))"

definition carry_rule :: "nat list \<Rightarrow> nat list" where
  "carry_rule t =
    (case fold carry_step [0..<4] (t, replicate 5 0) of (x, r) \<Rightarrow> r[4 := x ! 4 mod 2 ^ 52])"

definition fe_mul_reference :: "nat list \<Rightarrow> nat list \<Rightarrow> nat list" where
  "fe_mul_reference a b = carry_rule (map (conv_sum a b) [0..<9])"

section \<open>The shared carry chain\<close>

text \<open>
  Both bodies end in the same chain over five accumulators: each accumulator receives
  its predecessor's bits from position 52 upwards, and its own low 52 bits become the
  output limb. \<open>carry_chain\<close> names that chain, so that each body can be shown to be
  the chain applied to its five coefficients.
\<close>

definition carry_chain :: "u128 \<Rightarrow> u128 \<Rightarrow> u128 \<Rightarrow> u128 \<Rightarrow> u128 \<Rightarrow> fe_limb list" where
  "carry_chain x0 x1 x2 x3 x4 =
    (let x1 = x1 + drop_bit 52 x0;
         x2 = x2 + drop_bit 52 x1;
         x3 = x3 + drop_bit 52 x2;
         x4 = x4 + drop_bit 52 x3
     in [ucast (x0 AND ucast MASK52), ucast (x1 AND ucast MASK52), ucast (x2 AND ucast MASK52),
         ucast (x3 AND ucast MASK52), ucast (x4 AND ucast MASK52)])"

section \<open>Word arithmetic read as natural numbers\<close>

lemma MASK52_mask: "(ucast MASK52 :: u128) = mask 52"
  by (simp add: MASK52_def mask_eq_decr_exp)

lemma unat_widen: "unat (ucast (x :: fe_limb) :: u128) = unat x"
  by (simp add: unsigned_ucast_eq take_bit_nat_eq_self
      unsigned_less [where 'a=nat and 'b=64, THEN less_trans])

lemma unat_and_MASK52: "unat (w AND ucast MASK52 :: u128) = unat w mod 2 ^ 52"
proof -
  have "unat (w AND ucast MASK52 :: u128) = unat (take_bit 52 w)"
    by (simp only: MASK52_mask take_bit_eq_mask)
  also have "\<dots> = take_bit 52 (unat w)"
    by (rule unsigned_take_bit_eq)
  finally show ?thesis
    by (simp only: take_bit_eq_mod)
qed

lemma unat_drop52: "unat (drop_bit 52 (w :: u128)) = unat w div 2 ^ 52"
proof -
  have "unat (drop_bit 52 w) = drop_bit 52 (unat w)"
    by (rule unat_drop_bit_eq)
  then show ?thesis
    by (simp only: drop_bit_eq_div)
qed

lemma unat_limb_out: "unat (ucast (w AND ucast MASK52 :: u128) :: fe_limb) = unat w mod 2 ^ 52"
proof -
  have "unat w mod 2 ^ 52 < (2 ^ 64 :: nat)"
    by (rule less_trans [OF mod_less_divisor]) simp_all
  then show ?thesis
    by (simp add: unsigned_ucast_eq unat_and_MASK52 take_bit_nat_eq_self)
qed

lemma limb_lt_iff: "(x :: fe_limb) < 2 ^ 52 \<longleftrightarrow> unat x < 2 ^ 52"
  by (simp add: word_less_nat_alt)

lemma limb_out_lt: "(ucast (w AND ucast MASK52 :: u128) :: fe_limb) < 2 ^ 52"
  unfolding limb_lt_iff unat_limb_out by simp

text \<open>A 64-bit sum that does not wrap widens to the 128-bit sum of the widened terms.\<close>

lemma widen_add:
  fixes x y :: fe_limb
  assumes "unat x + unat y < 2 ^ 64"
  shows "(ucast (x + y) :: u128) = ucast x + ucast y"
proof -
  have s: "unat (x + y) = unat x + unat y"
    using assms unat_add_lem [of x y] by simp
  have "unat (ucast x + ucast y :: u128) = unat x + unat y"
    using assms unat_add_lem [of "ucast x :: u128" "ucast y"] by (simp add: unat_widen)
  then show ?thesis
    by (simp add: word_unat_eq_iff unat_widen s)
qed

lemma widen_add3:
  fixes x y z :: fe_limb
  assumes "unat x + unat y + unat z < 2 ^ 64"
  shows "(ucast (x + y + z) :: u128) = ucast x + ucast y + ucast z"
proof -
  have xy: "unat (x + y) = unat x + unat y"
    using assms unat_add_lem [of x y] by simp
  have "(ucast (x + y + z) :: u128) = ucast (x + y) + ucast z"
    using assms by (intro widen_add) (simp add: xy)
  also have "(ucast (x + y) :: u128) = ucast x + ucast y"
    using assms by (intro widen_add) simp
  finally show ?thesis .
qed

lemma widen_add4:
  fixes x y z w :: fe_limb
  assumes "unat x + unat y + unat z + unat w < 2 ^ 64"
  shows "(ucast (x + y + z + w) :: u128) = ucast x + ucast y + ucast z + ucast w"
proof -
  have xy: "unat (x + y) = unat x + unat y"
    using assms unat_add_lem [of x y] by simp
  have xyz: "unat (x + y + z) = unat x + unat y + unat z"
    using assms unat_add_lem [of "x + y" z] by (simp add: xy)
  have "(ucast (x + y + z + w) :: u128) = ucast (x + y + z) + ucast w"
    using assms by (intro widen_add) (simp add: xyz)
  also have "(ucast (x + y + z) :: u128) = ucast x + ucast y + ucast z"
    using assms by (intro widen_add3) simp
  finally show ?thesis .
qed

section \<open>Five-element arrays\<close>

lemma length5E:
  assumes "length a = 5"
  obtains a0 a1 a2 a3 a4 where "a = [a0, a1, a2, a3, a4]"
proof -
  from assms have "length a = Suc (Suc (Suc (Suc (Suc 0))))"
    by simp
  then show thesis
    by (auto simp: length_Suc_conv intro: that)
qed

lemma fe_validE:
  assumes "fe_valid a"
  obtains a0 a1 a2 a3 a4 where "a = [a0, a1, a2, a3, a4]"
    and "unat a0 < 2 ^ 52" and "unat a1 < 2 ^ 52" and "unat a2 < 2 ^ 52"
    and "unat a3 < 2 ^ 52" and "unat a4 < 2 ^ 52"
proof -
  from assms have len: "length a = 5" and bnd: "list_all (\<lambda>x. x < 2 ^ 52) a"
    by (simp_all add: fe_valid_def)
  from len obtain a0 a1 a2 a3 a4 where a: "a = [a0, a1, a2, a3, a4]"
    by (rule length5E)
  from bnd show thesis
    unfolding a limb_lt_iff by (intro that [OF a]) simp_all
qed

section \<open>Both bodies as the carry chain over their coefficients\<close>

lemma schoolbook_chain:
  "fe_mul_schoolbook a b = carry_chain
     (ucast (a ! 0) * ucast (b ! 0))
     (ucast (a ! 0) * ucast (b ! 1) + ucast (a ! 1) * ucast (b ! 0))
     (ucast (a ! 0) * ucast (b ! 2) + ucast (a ! 1) * ucast (b ! 1) + ucast (a ! 2) * ucast (b ! 0))
     (ucast (a ! 0) * ucast (b ! 3) + ucast (a ! 1) * ucast (b ! 2) + ucast (a ! 2) * ucast (b ! 1)
        + ucast (a ! 3) * ucast (b ! 0))
     (ucast (a ! 0) * ucast (b ! 4) + ucast (a ! 1) * ucast (b ! 3) + ucast (a ! 2) * ucast (b ! 2)
        + ucast (a ! 3) * ucast (b ! 1) + ucast (a ! 4) * ucast (b ! 0))"
  unfolding fe_mul_schoolbook_def schoolbook_run_def carry_chain_def Let_def
  by (simp only: schoolbook_locals.simps nth_list_update_eq nth_list_update_neq
      length_list_update length_replicate nth_replicate)

lemma schoolbook_lean_chain:
  "fe_mul_schoolbook_lean a b = carry_chain
     (ucast (a ! 0) * ucast (b ! 0))
     (ucast (a ! 0) * ucast (b ! 1) + ucast (a ! 1) * ucast (b ! 0))
     (ucast (a ! 0) * ucast (b ! 2) + ucast (a ! 1) * ucast (b ! 1) + ucast (a ! 2) * ucast (b ! 0))
     (ucast (a ! 0) * ucast (b ! 3) + ucast (a ! 1) * ucast (b ! 2) + ucast (a ! 2) * ucast (b ! 1)
        + ucast (a ! 3) * ucast (b ! 0))
     (ucast (a ! 0) * ucast (b ! 4) + ucast (a ! 1) * ucast (b ! 3) + ucast (a ! 2) * ucast (b ! 2)
        + ucast (a ! 3) * ucast (b ! 1) + ucast (a ! 4) * ucast (b ! 0))"
  unfolding fe_mul_schoolbook_lean_def schoolbook_lean_run_def carry_chain_def Let_def
  by (simp only: schoolbook_locals.simps nth_list_update_eq nth_list_update_neq
      length_list_update length_replicate nth_replicate)

lemma karatsuba_chain:
  "fe_mul_karatsuba_opt a b =
    (let p1 = (ucast (a ! 0) * ucast (b ! 0) :: u128);
         p2 = (ucast (a ! 0 + a ! 1) * ucast (b ! 0 + b ! 1) :: u128);
         p3 = (ucast (a ! 1) * ucast (b ! 1) :: u128);
         p4 = (ucast (a ! 0 + a ! 2) * ucast (b ! 0 + b ! 2) :: u128);
         p5 = (ucast (a ! 0 + a ! 1 + a ! 2 + a ! 3) * ucast (b ! 0 + b ! 1 + b ! 2 + b ! 3) :: u128);
         p6 = (ucast (a ! 1 + a ! 3) * ucast (b ! 1 + b ! 3) :: u128);
         p7 = (ucast (a ! 0 + a ! 2 + a ! 4) * ucast (b ! 0 + b ! 2 + b ! 4) :: u128);
         p10 = (ucast (a ! 2) * ucast (b ! 2) :: u128);
         p11 = (ucast (a ! 2 + a ! 3) * ucast (b ! 2 + b ! 3) :: u128);
         p12 = (ucast (a ! 3) * ucast (b ! 3) :: u128);
         p13 = (ucast (a ! 2 + a ! 4) * ucast (b ! 2 + b ! 4) :: u128)
     in carry_chain p1 (p2 - (p1 + p3)) (p3 + p4 - p1 - p10)
          (p5 - p2 + (p1 + p3) - p4 - p6 - p11 + p10 + p12)
          (p7 - p4 + p6 - p3 - p13 + push_bit 1 p10 - p12))"
  unfolding fe_mul_karatsuba_opt_def karatsuba_run_def carry_chain_def Let_def
  by (simp only: karatsuba_locals.simps)

lemma karatsuba_lean_chain:
  "fe_mul_karatsuba_lean a b =
    (let p1 = (ucast (a ! 0) * ucast (b ! 0) :: u128);
         p2 = (ucast (a ! 0 + a ! 1) * ucast (b ! 0 + b ! 1) :: u128);
         p3 = (ucast (a ! 1) * ucast (b ! 1) :: u128);
         p4 = (ucast (a ! 0 + a ! 2) * ucast (b ! 0 + b ! 2) :: u128);
         p5 = (ucast (a ! 0 + a ! 1 + a ! 2 + a ! 3) * ucast (b ! 0 + b ! 1 + b ! 2 + b ! 3) :: u128);
         p6 = (ucast (a ! 1 + a ! 3) * ucast (b ! 1 + b ! 3) :: u128);
         p7 = (ucast (a ! 0 + a ! 2 + a ! 4) * ucast (b ! 0 + b ! 2 + b ! 4) :: u128);
         p10 = (ucast (a ! 2) * ucast (b ! 2) :: u128);
         p11 = (ucast (a ! 2 + a ! 3) * ucast (b ! 2 + b ! 3) :: u128);
         p12 = (ucast (a ! 3) * ucast (b ! 3) :: u128);
         p13 = (ucast (a ! 2 + a ! 4) * ucast (b ! 2 + b ! 4) :: u128)
     in carry_chain p1 (p2 - (p1 + p3)) (p3 + p4 - p1 - p10)
          (p5 - p2 + (p1 + p3) - p4 - p6 - p11 + p10 + p12)
          (p7 - p4 + p6 - p3 - p13 + push_bit 1 p10 - p12))"
  unfolding fe_mul_karatsuba_lean_def carry_chain_def Let_def
  by (rule refl)

text \<open>The coefficient identities, valid in any commutative ring and so in the 128-bit
  words with their wrap-around.\<close>

lemma kara_c1: "(A0 + A1) * (B0 + B1) - (A0 * B0 + A1 * B1) = A0 * B1 + A1 * B0"
  for A0 :: u128
  by (simp add: algebra_simps)

lemma kara_c2: "A1 * B1 + (A0 + A2) * (B0 + B2) - A0 * B0 - A2 * B2 = A0 * B2 + A1 * B1 + A2 * B0"
  for A0 :: u128
  by (simp add: algebra_simps)

lemma kara_c3:
  "(A0 + A1 + A2 + A3) * (B0 + B1 + B2 + B3) - (A0 + A1) * (B0 + B1) + (A0 * B0 + A1 * B1)
     - (A0 + A2) * (B0 + B2) - (A1 + A3) * (B1 + B3) - (A2 + A3) * (B2 + B3) + A2 * B2 + A3 * B3
   = A0 * B3 + A1 * B2 + A2 * B1 + A3 * B0"
  for A0 :: u128
  by (simp add: algebra_simps)

lemma kara_c4:
  "(A0 + A2 + A4) * (B0 + B2 + B4) - (A0 + A2) * (B0 + B2) + (A1 + A3) * (B1 + B3) - A1 * B1
     - (A2 + A4) * (B2 + B4) + push_bit 1 (A2 * B2) - A3 * B3
   = A0 * B4 + A1 * B3 + A2 * B2 + A3 * B1 + A4 * B0"
  for A0 :: u128
  by (simp add: algebra_simps push_bit_eq_mult)

text \<open>The two multipliers agree whenever no 64-bit operand sum of the Karatsuba body
  wraps; the sums \<open>a0+a1+a2+a3\<close> and \<open>a0+a2+a4\<close> dominate all the others that feed
  \<open>c0..c4\<close>.\<close>

lemma karatsuba_eq_schoolbook_nowrap:
  assumes a1: "unat (a ! 0) + unat (a ! 1) + unat (a ! 2) + unat (a ! 3) < 2 ^ 64"
    and a2: "unat (a ! 0) + unat (a ! 2) + unat (a ! 4) < 2 ^ 64"
    and b1: "unat (b ! 0) + unat (b ! 1) + unat (b ! 2) + unat (b ! 3) < 2 ^ 64"
    and b2: "unat (b ! 0) + unat (b ! 2) + unat (b ! 4) < 2 ^ 64"
  shows "fe_mul_karatsuba_opt a b = fe_mul_schoolbook a b"
proof -
  have wa:
    "(ucast (a ! 0 + a ! 1) :: u128) = ucast (a ! 0) + ucast (a ! 1)"
    "(ucast (a ! 0 + a ! 2) :: u128) = ucast (a ! 0) + ucast (a ! 2)"
    "(ucast (a ! 1 + a ! 3) :: u128) = ucast (a ! 1) + ucast (a ! 3)"
    "(ucast (a ! 2 + a ! 3) :: u128) = ucast (a ! 2) + ucast (a ! 3)"
    "(ucast (a ! 2 + a ! 4) :: u128) = ucast (a ! 2) + ucast (a ! 4)"
    using a1 a2 by (simp_all add: widen_add)
  have wa3: "(ucast (a ! 0 + a ! 2 + a ! 4) :: u128) = ucast (a ! 0) + ucast (a ! 2) + ucast (a ! 4)"
    using a2 by (rule widen_add3)
  have wa4: "(ucast (a ! 0 + a ! 1 + a ! 2 + a ! 3) :: u128)
      = ucast (a ! 0) + ucast (a ! 1) + ucast (a ! 2) + ucast (a ! 3)"
    using a1 by (rule widen_add4)
  have wb:
    "(ucast (b ! 0 + b ! 1) :: u128) = ucast (b ! 0) + ucast (b ! 1)"
    "(ucast (b ! 0 + b ! 2) :: u128) = ucast (b ! 0) + ucast (b ! 2)"
    "(ucast (b ! 1 + b ! 3) :: u128) = ucast (b ! 1) + ucast (b ! 3)"
    "(ucast (b ! 2 + b ! 3) :: u128) = ucast (b ! 2) + ucast (b ! 3)"
    "(ucast (b ! 2 + b ! 4) :: u128) = ucast (b ! 2) + ucast (b ! 4)"
    using b1 b2 by (simp_all add: widen_add)
  have wb3: "(ucast (b ! 0 + b ! 2 + b ! 4) :: u128) = ucast (b ! 0) + ucast (b ! 2) + ucast (b ! 4)"
    using b2 by (rule widen_add3)
  have wb4: "(ucast (b ! 0 + b ! 1 + b ! 2 + b ! 3) :: u128)
      = ucast (b ! 0) + ucast (b ! 1) + ucast (b ! 2) + ucast (b ! 3)"
    using b1 by (rule widen_add4)
  show ?thesis
    unfolding karatsuba_chain schoolbook_chain Let_def wa wa3 wa4 wb wb3 wb4
    by (simp only: kara_c1 kara_c2 kara_c3 kara_c4)
qed

lemma fe_valid_nowrap:
  assumes "fe_valid a"
  shows "unat (a ! 0) + unat (a ! 1) + unat (a ! 2) + unat (a ! 3) < 2 ^ 64"
    and "unat (a ! 0) + unat (a ! 2) + unat (a ! 4) < 2 ^ 64"
proof -
  from assms obtain a0 a1 a2 a3 a4 where a: "a = [a0, a1, a2, a3, a4]"
    and "unat a0 < 2 ^ 52" and "unat a1 < 2 ^ 52" and "unat a2 < 2 ^ 52"
    and "unat a3 < 2 ^ 52" and "unat a4 < 2 ^ 52"
    by (rule fe_validE)
  then show "unat (a ! 0) + unat (a ! 1) + unat (a ! 2) + unat (a ! 3) < 2 ^ 64"
    and "unat (a ! 0) + unat (a ! 2) + unat (a ! 4) < 2 ^ 64"
    by simp_all
qed

section \<open>Output limbs are masked\<close>

lemma carry_chain_nth_lt:
  assumes "i < 5"
  shows "carry_chain x0 x1 x2 x3 x4 ! i < 2 ^ 52"
proof -
  have "list_all (\<lambda>x. x < 2 ^ 52) (carry_chain x0 x1 x2 x3 x4)"
    unfolding carry_chain_def Let_def by (simp only: list.pred_inject limb_out_lt simp_thms)
  moreover have "length (carry_chain x0 x1 x2 x3 x4) = 5"
    unfolding carry_chain_def Let_def by simp
  ultimately show ?thesis
    using assms by (simp add: list_all_length)
qed

lemma carry_chain_valid: "fe_valid (carry_chain x0 x1 x2 x3 x4)"
  unfolding fe_valid_def carry_chain_def Let_def
  by (simp only: list.pred_inject limb_out_lt simp_thms) simp

lemma schoolbook_limb_lt: "i < 5 \<Longrightarrow> fe_mul_schoolbook a b ! i < 2 ^ 52"
  unfolding schoolbook_chain by (rule carry_chain_nth_lt)

lemma karatsuba_limb_lt: "i < 5 \<Longrightarrow> fe_mul_karatsuba_opt a b ! i < 2 ^ 52"
  unfolding karatsuba_chain Let_def by (rule carry_chain_nth_lt)

lemma schoolbook_valid: "fe_valid (fe_mul_schoolbook a b)"
  unfolding schoolbook_chain by (rule carry_chain_valid)

lemma karatsuba_valid: "fe_valid (fe_mul_karatsuba_opt a b)"
  unfolding karatsuba_chain Let_def by (rule carry_chain_valid)

section \<open>The harness vectors, evaluated\<close>

lemma schoolbook_main:
  "fe_mul_schoolbook main_a main_b =
    [0x094f918f48bdf0, 0x09abcdf01221fd, 0x0ddddddddeefcb, 0x041fdb975654b4, 0x00b60b60bca844]"
  unfolding schoolbook_chain carry_chain_def Let_def main_a_def main_b_def
  by (simp add: MASK52_def)

lemma karatsuba_main:
  "fe_mul_karatsuba_opt main_a main_b =
    [0x094f918f48bdf0, 0x09abcdf01221fd, 0x0ddddddddeefcb, 0x041fdb975654b4, 0x00b60b60bca844]"
  unfolding karatsuba_chain carry_chain_def Let_def main_a_def main_b_def
  by (simp add: MASK52_def)

lemma main_a_masked:
  "map (\<lambda>x. x AND MASK52) main_a =
     [0x456789ABCDEF0, 0xDCBA987654321, 0x1111111111111, 0x2222222222222, 0x3333333333333]"
  by (simp add: main_a_def MASK52_def)

lemma main_b_masked:
  "map (\<lambda>x. x AND MASK52) main_b =
     [0x1111111111111, 0x2222222222222, 0x3333333333333, 0x4444444444444, 0x5555555555555]"
  by (simp add: main_b_def MASK52_def)

lemma schoolbook_main_masked:
  "fe_mul_schoolbook (map (\<lambda>x. x AND MASK52) main_a) (map (\<lambda>x. x AND MASK52) main_b) =
    [2620761383157232, 860687928786362, 3242591731706758, 4403519635651152, 3742991690303479]"
  unfolding main_a_masked main_b_masked schoolbook_chain carry_chain_def Let_def
  by (simp add: MASK52_def)

lemma karatsuba_main_masked:
  "fe_mul_karatsuba_opt (map (\<lambda>x. x AND MASK52) main_a) (map (\<lambda>x. x AND MASK52) main_b) =
    [2620761383157232, 860687928786362, 3242591731706758, 4403519635651152, 3742991690303479]"
  unfolding main_a_masked main_b_masked karatsuba_chain carry_chain_def Let_def
  by (simp add: MASK52_def)

section \<open>Limbs that fit 52 bits\<close>

text \<open>A widened limb below \<open>2^52\<close> produces no carry and passes the mask unchanged.\<close>

lemma drop52_limb:
  assumes "unat (x :: fe_limb) < 2 ^ 52"
  shows "drop_bit 52 (ucast x :: u128) = 0"
  using assms by (simp add: word_unat_eq_iff unat_drop52 unat_widen)

lemma mask52_limb:
  assumes "unat (x :: fe_limb) < 2 ^ 52"
  shows "(ucast (ucast x AND ucast MASK52 :: u128) :: fe_limb) = x"
  using assms by (simp add: word_unat_eq_iff unat_limb_out unat_widen)

lemma carry_chain_limbs:
  assumes "unat a0 < 2 ^ 52" "unat a1 < 2 ^ 52" "unat a2 < 2 ^ 52" "unat a3 < 2 ^ 52"
    "unat a4 < 2 ^ 52"
  shows "carry_chain (ucast a0) (ucast a1) (ucast a2) (ucast a3) (ucast a4) = [a0, a1, a2, a3, a4]"
  unfolding carry_chain_def Let_def
  using assms by (simp only: drop52_limb mask52_limb add_0_right)

section \<open>The top accumulator\<close>

text \<open>The limb \<open>r[4]\<close> is the final \<^verbatim>\<open>tmp[4]\<close>, respectively \<^verbatim>\<open>c4\<close>, under the
  mask; the accumulator itself is the last link of the carry chain.\<close>

lemma schoolbook_top:
  "fe_mul_schoolbook a b ! 4 = ucast (sb_tmp (schoolbook_run a b) ! 4 AND ucast MASK52)"
  unfolding fe_mul_schoolbook_def schoolbook_run_def Let_def
  by (simp only: schoolbook_locals.simps nth_list_update_eq nth_list_update_neq
      length_list_update length_replicate nth_replicate nth_Cons_numeral nth_Cons_0) simp

lemma karatsuba_top:
  "fe_mul_karatsuba_opt a b ! 4 = ucast (k_c4 (karatsuba_run a b) AND ucast MASK52)"
  unfolding fe_mul_karatsuba_opt_def karatsuba_run_def Let_def
  by (simp only: karatsuba_locals.simps nth_Cons_numeral nth_Cons_0) simp

lemma schoolbook_top_expr:
  "sb_tmp (schoolbook_run a b) ! 4 =
     ucast (a ! 0) * ucast (b ! 4) + ucast (a ! 1) * ucast (b ! 3) + ucast (a ! 2) * ucast (b ! 2)
        + ucast (a ! 3) * ucast (b ! 1) + ucast (a ! 4) * ucast (b ! 0)
     + drop_bit 52
        (ucast (a ! 0) * ucast (b ! 3) + ucast (a ! 1) * ucast (b ! 2) + ucast (a ! 2) * ucast (b ! 1)
           + ucast (a ! 3) * ucast (b ! 0)
         + drop_bit 52
            (ucast (a ! 0) * ucast (b ! 2) + ucast (a ! 1) * ucast (b ! 1) + ucast (a ! 2) * ucast (b ! 0)
             + drop_bit 52
                (ucast (a ! 0) * ucast (b ! 1) + ucast (a ! 1) * ucast (b ! 0)
                 + drop_bit 52 (ucast (a ! 0) * ucast (b ! 0)))))"
  unfolding schoolbook_run_def Let_def
  by (simp only: schoolbook_locals.simps nth_list_update_eq nth_list_update_neq
      length_list_update length_replicate nth_replicate)

lemma karatsuba_top_expr:
  "k_c4 (karatsuba_run a b) =
    (let p1 = (ucast (a ! 0) * ucast (b ! 0) :: u128);
         p2 = (ucast (a ! 0 + a ! 1) * ucast (b ! 0 + b ! 1) :: u128);
         p3 = (ucast (a ! 1) * ucast (b ! 1) :: u128);
         p4 = (ucast (a ! 0 + a ! 2) * ucast (b ! 0 + b ! 2) :: u128);
         p5 = (ucast (a ! 0 + a ! 1 + a ! 2 + a ! 3) * ucast (b ! 0 + b ! 1 + b ! 2 + b ! 3) :: u128);
         p6 = (ucast (a ! 1 + a ! 3) * ucast (b ! 1 + b ! 3) :: u128);
         p7 = (ucast (a ! 0 + a ! 2 + a ! 4) * ucast (b ! 0 + b ! 2 + b ! 4) :: u128);
         p10 = (ucast (a ! 2) * ucast (b ! 2) :: u128);
         p11 = (ucast (a ! 2 + a ! 3) * ucast (b ! 2 + b ! 3) :: u128);
         p12 = (ucast (a ! 3) * ucast (b ! 3) :: u128);
         p13 = (ucast (a ! 2 + a ! 4) * ucast (b ! 2 + b ! 4) :: u128)
     in p7 - p4 + p6 - p3 - p13 + push_bit 1 p10 - p12
        + drop_bit 52 (p5 - p2 + (p1 + p3) - p4 - p6 - p11 + p10 + p12
        + drop_bit 52 (p3 + p4 - p1 - p10
        + drop_bit 52 (p2 - (p1 + p3) + drop_bit 52 p1))))"
  unfolding karatsuba_run_def Let_def
  by (simp only: karatsuba_locals.simps)

lemma schoolbook_top_max:
  "2 ^ 52 \<le> sb_tmp (schoolbook_run
      [0xFFFFFFFFFFFFF, 0xFFFFFFFFFFFFF, 0xFFFFFFFFFFFFF, 0xFFFFFFFFFFFFF, 0xFFFFFFFFFFFFF]
      [0xFFFFFFFFFFFFF, 0xFFFFFFFFFFFFF, 0xFFFFFFFFFFFFF, 0xFFFFFFFFFFFFF, 0xFFFFFFFFFFFFF]) ! 4"
  unfolding schoolbook_top_expr
  by simp

lemma karatsuba_top_max:
  "2 ^ 52 \<le> k_c4 (karatsuba_run
      [0xFFFFFFFFFFFFF, 0xFFFFFFFFFFFFF, 0xFFFFFFFFFFFFF, 0xFFFFFFFFFFFFF, 0xFFFFFFFFFFFFF]
      [0xFFFFFFFFFFFFF, 0xFFFFFFFFFFFFF, 0xFFFFFFFFFFFFF, 0xFFFFFFFFFFFFF, 0xFFFFFFFFFFFFF])"
  unfolding karatsuba_top_expr Let_def
  by simp

section \<open>The schoolbook body against exact arithmetic\<close>

lemma conv_sum_list:
  "map (conv_sum [A0, A1, A2, A3, A4] [B0, B1, B2, B3, B4]) [0..<9] =
    [A0 * B0,
     A0 * B1 + A1 * B0,
     A0 * B2 + A1 * B1 + A2 * B0,
     A0 * B3 + A1 * B2 + A2 * B1 + A3 * B0,
     A0 * B4 + A1 * B3 + A2 * B2 + A3 * B1 + A4 * B0,
     A1 * B4 + A2 * B3 + A3 * B2 + A4 * B1,
     A2 * B4 + A3 * B3 + A4 * B2,
     A3 * B4 + A4 * B3,
     A4 * B4]"
  by (simp add: conv_sum_def upt_conv_Cons)

lemma carry_rule_list:
  "carry_rule [T0, T1, T2, T3, T4, T5, T6, T7, T8] =
    (let X1 = T1 + T0 div 2 ^ 52;
         X2 = T2 + X1 div 2 ^ 52;
         X3 = T3 + X2 div 2 ^ 52;
         X4 = T4 + X3 div 2 ^ 52
     in [T0 mod 2 ^ 52, X1 mod 2 ^ 52, X2 mod 2 ^ 52, X3 mod 2 ^ 52, X4 mod 2 ^ 52])"
  by (simp add: carry_rule_def carry_step_def upt_conv_Cons Let_def eval_nat_numeral del: power_Suc)

lemma unat_limb_prod: "unat (ucast x * ucast y :: u128) = unat x * unat y"
  for x y :: fe_limb
proof -
  have "unat x < 2 ^ 64" "unat y < 2 ^ 64"
    using unsigned_less [of x, where 'a = nat] unsigned_less [of y, where 'a = nat] by simp_all
  then have "unat x * unat y < 2 ^ 64 * 2 ^ 64"
    by (intro mult_strict_mono') simp_all
  then have "unat (ucast x :: u128) * unat (ucast y :: u128) < 2 ^ LENGTH(128)"
    by (simp add: unat_widen)
  then show ?thesis
    by (simp only: unat_mult_lem [THEN iffD1] unat_widen)
qed

lemma limb_prod_lt:
  fixes x y :: fe_limb
  assumes "unat x < 2 ^ 52" and "unat y < 2 ^ 52"
  shows "unat (ucast x * ucast y :: u128) < 2 ^ 104"
proof -
  from assms have "unat x * unat y < 2 ^ 52 * 2 ^ 52"
    by (intro mult_strict_mono') simp_all
  then show ?thesis
    by (simp add: unat_limb_prod)
qed

lemma unat_add2:
  fixes x y :: u128
  assumes "unat x < 2 ^ 106" and "unat y < 2 ^ 104"
  shows "unat (x + y) = unat x + unat y"
  using assms unat_add_lem [of x y] by simp

lemma unat_add_carry:
  fixes x y :: u128
  assumes "unat x < 2 ^ 107"
  shows "unat (x + drop_bit 52 y) = unat x + unat y div 2 ^ 52"
proof -
  have "unat y < 2 ^ 128"
    using unsigned_less [of y, where 'a = nat] by simp
  then have "unat y div 2 ^ 52 < 2 ^ 76"
    by (simp add: less_mult_imp_div_less)
  with assms have "unat x + unat (drop_bit 52 y) < 2 ^ LENGTH(128)"
    by (simp add: unat_drop52)
  then show ?thesis
    by (simp only: unat_add_lem [THEN iffD1] unat_drop52)
qed

lemma carry_chain_unat:
  assumes "unat x1 < 2 ^ 107" "unat x2 < 2 ^ 107" "unat x3 < 2 ^ 107" "unat x4 < 2 ^ 107"
  shows "map unat (carry_chain x0 x1 x2 x3 x4) =
    (let X1 = unat x1 + unat x0 div 2 ^ 52;
         X2 = unat x2 + X1 div 2 ^ 52;
         X3 = unat x3 + X2 div 2 ^ 52;
         X4 = unat x4 + X3 div 2 ^ 52
     in [unat x0 mod 2 ^ 52, X1 mod 2 ^ 52, X2 mod 2 ^ 52, X3 mod 2 ^ 52, X4 mod 2 ^ 52])"
  unfolding carry_chain_def Let_def
  by (simp only: list.map unat_limb_out unat_add_carry [OF assms(1)] unat_add_carry [OF assms(2)]
      unat_add_carry [OF assms(3)] unat_add_carry [OF assms(4)])

lemma nat_prod_lt:
  fixes m n :: nat
  assumes "m < 2 ^ 52" and "n < 2 ^ 52"
  shows "m * n < 2 ^ 104"
proof -
  from assms have "m * n < 2 ^ 52 * 2 ^ 52"
    by (intro mult_strict_mono') simp_all
  then show ?thesis
    by simp
qed

lemma schoolbook_unat_list:
  fixes a0 a1 a2 a3 a4 b0 b1 b2 b3 b4 :: fe_limb
  assumes a: "unat a0 < 2 ^ 52" "unat a1 < 2 ^ 52" "unat a2 < 2 ^ 52" "unat a3 < 2 ^ 52"
      "unat a4 < 2 ^ 52"
    and b: "unat b0 < 2 ^ 52" "unat b1 < 2 ^ 52" "unat b2 < 2 ^ 52" "unat b3 < 2 ^ 52"
      "unat b4 < 2 ^ 52"
  shows "map unat (fe_mul_schoolbook [a0, a1, a2, a3, a4] [b0, b1, b2, b3, b4]) =
    (let X1 = unat a0 * unat b1 + unat a1 * unat b0 + unat a0 * unat b0 div 2 ^ 52;
         X2 = unat a0 * unat b2 + unat a1 * unat b1 + unat a2 * unat b0 + X1 div 2 ^ 52;
         X3 = unat a0 * unat b3 + unat a1 * unat b2 + unat a2 * unat b1 + unat a3 * unat b0
                + X2 div 2 ^ 52;
         X4 = unat a0 * unat b4 + unat a1 * unat b3 + unat a2 * unat b2 + unat a3 * unat b1
                + unat a4 * unat b0 + X3 div 2 ^ 52
     in [unat a0 * unat b0 mod 2 ^ 52, X1 mod 2 ^ 52, X2 mod 2 ^ 52, X3 mod 2 ^ 52,
         X4 mod 2 ^ 52])"
proof -
  note prods =
    nat_prod_lt [OF a(1) b(1)] nat_prod_lt [OF a(1) b(2)] nat_prod_lt [OF a(1) b(3)]
    nat_prod_lt [OF a(1) b(4)] nat_prod_lt [OF a(1) b(5)]
    nat_prod_lt [OF a(2) b(1)] nat_prod_lt [OF a(2) b(2)] nat_prod_lt [OF a(2) b(3)]
    nat_prod_lt [OF a(2) b(4)]
    nat_prod_lt [OF a(3) b(1)] nat_prod_lt [OF a(3) b(2)] nat_prod_lt [OF a(3) b(3)]
    nat_prod_lt [OF a(4) b(1)] nat_prod_lt [OF a(4) b(2)]
    nat_prod_lt [OF a(5) b(1)]
  let ?p = "\<lambda>x y :: fe_limb. (ucast x * ucast y :: u128)"
  have t1: "unat (?p a0 b1 + ?p a1 b0) = unat a0 * unat b1 + unat a1 * unat b0"
    using prods by (simp add: unat_add2 unat_limb_prod)
  have t2: "unat (?p a0 b2 + ?p a1 b1 + ?p a2 b0)
      = unat a0 * unat b2 + unat a1 * unat b1 + unat a2 * unat b0"
    using prods by (simp add: unat_add2 unat_limb_prod)
  have t3: "unat (?p a0 b3 + ?p a1 b2 + ?p a2 b1 + ?p a3 b0)
      = unat a0 * unat b3 + unat a1 * unat b2 + unat a2 * unat b1 + unat a3 * unat b0"
    using prods by (simp add: unat_add2 unat_limb_prod)
  have t4: "unat (?p a0 b4 + ?p a1 b3 + ?p a2 b2 + ?p a3 b1 + ?p a4 b0)
      = unat a0 * unat b4 + unat a1 * unat b3 + unat a2 * unat b2 + unat a3 * unat b1
        + unat a4 * unat b0"
    using prods by (simp add: unat_add2 unat_limb_prod)
  have b1: "unat (?p a0 b1 + ?p a1 b0) < 2 ^ 107"
    unfolding t1 using prods by simp
  have b2: "unat (?p a0 b2 + ?p a1 b1 + ?p a2 b0) < 2 ^ 107"
    unfolding t2 using prods by simp
  have b3: "unat (?p a0 b3 + ?p a1 b2 + ?p a2 b1 + ?p a3 b0) < 2 ^ 107"
    unfolding t3 using prods by simp
  have b4: "unat (?p a0 b4 + ?p a1 b3 + ?p a2 b2 + ?p a3 b1 + ?p a4 b0) < 2 ^ 107"
    unfolding t4 using prods by simp
  have "fe_mul_schoolbook [a0, a1, a2, a3, a4] [b0, b1, b2, b3, b4] =
      carry_chain (?p a0 b0) (?p a0 b1 + ?p a1 b0) (?p a0 b2 + ?p a1 b1 + ?p a2 b0)
        (?p a0 b3 + ?p a1 b2 + ?p a2 b1 + ?p a3 b0)
        (?p a0 b4 + ?p a1 b3 + ?p a2 b2 + ?p a3 b1 + ?p a4 b0)"
    unfolding schoolbook_chain by simp
  then show ?thesis
    by (simp only: carry_chain_unat [OF b1 b2 b3 b4] t1 t2 t3 t4 unat_limb_prod)
qed

section \<open>Two valid field elements\<close>

text \<open>A mixed element (largest limb, small limb, a single top bit) and the element with
  every limb \<open>2^52 - 1\<close>, on which the general theorems are instantiated.\<close>

lemma fe_valid_xs:
  "fe_valid [0xFFFFFFFFFFFFF, 0x123456789ABCD, 7, 0x8000000000000, 0xFEDCBA9876543]"
  by (simp add: fe_valid_def)

lemma fe_valid_max:
  "fe_valid [0xFFFFFFFFFFFFF, 0xFFFFFFFFFFFFF, 0xFFFFFFFFFFFFF, 0xFFFFFFFFFFFFF, 0xFFFFFFFFFFFFF]"
  by (simp add: fe_valid_def)

section \<open>The claims\<close>

text \<open>
  \<^bold>\<open>C1\<close> Equivalence. For every pair of five-limb inputs with every limb strictly below
  \<open>2^52\<close>, the Karatsuba multiplier and the schoolbook multiplier write the same five
  output limbs.
\<close>

theorem karatsuba_equals_schoolbook:
  assumes "fe_valid a" and "fe_valid b"
  shows "fe_mul_karatsuba_opt a b = fe_mul_schoolbook a b"
  using assms by (intro karatsuba_eq_schoolbook_nowrap fe_valid_nowrap)

theorem karatsuba_equals_schoolbook_witness:
  "fe_valid [0xFFFFFFFFFFFFF, 0x123456789ABCD, 7, 0x8000000000000, 0xFEDCBA9876543]
   \<and> fe_valid [0xFFFFFFFFFFFFF, 0xFFFFFFFFFFFFF, 0xFFFFFFFFFFFFF, 0xFFFFFFFFFFFFF, 0xFFFFFFFFFFFFF]
   \<and> fe_mul_karatsuba_opt [0xFFFFFFFFFFFFF, 0x123456789ABCD, 7, 0x8000000000000, 0xFEDCBA9876543]
        [0xFFFFFFFFFFFFF, 0xFFFFFFFFFFFFF, 0xFFFFFFFFFFFFF, 0xFFFFFFFFFFFFF, 0xFFFFFFFFFFFFF]
     = fe_mul_schoolbook [0xFFFFFFFFFFFFF, 0x123456789ABCD, 7, 0x8000000000000, 0xFEDCBA9876543]
        [0xFFFFFFFFFFFFF, 0xFFFFFFFFFFFFF, 0xFFFFFFFFFFFFF, 0xFFFFFFFFFFFFF, 0xFFFFFFFFFFFFF]"
  using fe_valid_xs fe_valid_max karatsuba_equals_schoolbook [OF fe_valid_xs fe_valid_max]
  by (intro conjI)

text \<open>
  \<^bold>\<open>C2\<close> The schoolbook multiplier against the reference definition. For every pair of
  valid inputs, the limbs written by \<^verbatim>\<open>fe_mul_schoolbook\<close>, read as natural numbers, are
  exactly those of the reference: the convolution sums in exact arithmetic, followed by
  the carry rule. No 128-bit accumulator wraps on valid inputs.
\<close>

theorem schoolbook_meets_reference:
  assumes "fe_valid a" and "fe_valid b"
  shows "map unat (fe_mul_schoolbook a b) = fe_mul_reference (map unat a) (map unat b)"
proof -
  from assms(1) obtain a0 a1 a2 a3 a4 where a: "a = [a0, a1, a2, a3, a4]"
    and la: "unat a0 < 2 ^ 52" "unat a1 < 2 ^ 52" "unat a2 < 2 ^ 52" "unat a3 < 2 ^ 52"
      "unat a4 < 2 ^ 52"
    by (rule fe_validE)
  from assms(2) obtain b0 b1 b2 b3 b4 where b: "b = [b0, b1, b2, b3, b4]"
    and lb: "unat b0 < 2 ^ 52" "unat b1 < 2 ^ 52" "unat b2 < 2 ^ 52" "unat b3 < 2 ^ 52"
      "unat b4 < 2 ^ 52"
    by (rule fe_validE)
  show ?thesis
    unfolding a b schoolbook_unat_list [OF la lb] fe_mul_reference_def list.map
      conv_sum_list carry_rule_list
    by (rule refl)
qed

theorem schoolbook_meets_reference_witness:
  "fe_valid [0xFFFFFFFFFFFFF, 0x123456789ABCD, 7, 0x8000000000000, 0xFEDCBA9876543]
   \<and> fe_valid [0xFFFFFFFFFFFFF, 0xFFFFFFFFFFFFF, 0xFFFFFFFFFFFFF, 0xFFFFFFFFFFFFF, 0xFFFFFFFFFFFFF]
   \<and> map unat (fe_mul_schoolbook [0xFFFFFFFFFFFFF, 0x123456789ABCD, 7, 0x8000000000000, 0xFEDCBA9876543]
        [0xFFFFFFFFFFFFF, 0xFFFFFFFFFFFFF, 0xFFFFFFFFFFFFF, 0xFFFFFFFFFFFFF, 0xFFFFFFFFFFFFF])
     = fe_mul_reference (map unat ([0xFFFFFFFFFFFFF, 0x123456789ABCD, 7, 0x8000000000000, 0xFEDCBA9876543] :: fe_limb list))
        (map unat ([0xFFFFFFFFFFFFF, 0xFFFFFFFFFFFFF, 0xFFFFFFFFFFFFF, 0xFFFFFFFFFFFFF, 0xFFFFFFFFFFFFF] :: fe_limb list))"
  by (rule conjI [OF fe_valid_xs conjI [OF fe_valid_max
        schoolbook_meets_reference [OF fe_valid_xs fe_valid_max]]])

text \<open>
  \<^bold>\<open>C3\<close> Bounds. For every pair of valid inputs, each of the output limbs \<open>r[0]\<close>,
  \<open>r[1]\<close>, \<open>r[2]\<close>, \<open>r[3]\<close> written by either multiplier is strictly below \<open>2^52\<close>.
\<close>

theorem low_limbs_below_2p52:
  assumes "fe_valid a" and "fe_valid b"
  shows "fe_mul_schoolbook a b ! 0 < 2 ^ 52 \<and> fe_mul_schoolbook a b ! 1 < 2 ^ 52
       \<and> fe_mul_schoolbook a b ! 2 < 2 ^ 52 \<and> fe_mul_schoolbook a b ! 3 < 2 ^ 52
       \<and> fe_mul_karatsuba_opt a b ! 0 < 2 ^ 52 \<and> fe_mul_karatsuba_opt a b ! 1 < 2 ^ 52
       \<and> fe_mul_karatsuba_opt a b ! 2 < 2 ^ 52 \<and> fe_mul_karatsuba_opt a b ! 3 < 2 ^ 52"
  by (intro conjI schoolbook_limb_lt karatsuba_limb_lt) simp_all

theorem low_limbs_below_2p52_witness:
  "fe_valid [0xFFFFFFFFFFFFF, 0x123456789ABCD, 7, 0x8000000000000, 0xFEDCBA9876543]
   \<and> fe_valid [0xFFFFFFFFFFFFF, 0xFFFFFFFFFFFFF, 0xFFFFFFFFFFFFF, 0xFFFFFFFFFFFFF, 0xFFFFFFFFFFFFF]
   \<and> fe_mul_schoolbook [0xFFFFFFFFFFFFF, 0x123456789ABCD, 7, 0x8000000000000, 0xFEDCBA9876543]
        [0xFFFFFFFFFFFFF, 0xFFFFFFFFFFFFF, 0xFFFFFFFFFFFFF, 0xFFFFFFFFFFFFF, 0xFFFFFFFFFFFFF] ! 0 < 2 ^ 52
   \<and> fe_mul_schoolbook [0xFFFFFFFFFFFFF, 0x123456789ABCD, 7, 0x8000000000000, 0xFEDCBA9876543]
        [0xFFFFFFFFFFFFF, 0xFFFFFFFFFFFFF, 0xFFFFFFFFFFFFF, 0xFFFFFFFFFFFFF, 0xFFFFFFFFFFFFF] ! 1 < 2 ^ 52
   \<and> fe_mul_schoolbook [0xFFFFFFFFFFFFF, 0x123456789ABCD, 7, 0x8000000000000, 0xFEDCBA9876543]
        [0xFFFFFFFFFFFFF, 0xFFFFFFFFFFFFF, 0xFFFFFFFFFFFFF, 0xFFFFFFFFFFFFF, 0xFFFFFFFFFFFFF] ! 2 < 2 ^ 52
   \<and> fe_mul_schoolbook [0xFFFFFFFFFFFFF, 0x123456789ABCD, 7, 0x8000000000000, 0xFEDCBA9876543]
        [0xFFFFFFFFFFFFF, 0xFFFFFFFFFFFFF, 0xFFFFFFFFFFFFF, 0xFFFFFFFFFFFFF, 0xFFFFFFFFFFFFF] ! 3 < 2 ^ 52
   \<and> fe_mul_karatsuba_opt [0xFFFFFFFFFFFFF, 0x123456789ABCD, 7, 0x8000000000000, 0xFEDCBA9876543]
        [0xFFFFFFFFFFFFF, 0xFFFFFFFFFFFFF, 0xFFFFFFFFFFFFF, 0xFFFFFFFFFFFFF, 0xFFFFFFFFFFFFF] ! 0 < 2 ^ 52
   \<and> fe_mul_karatsuba_opt [0xFFFFFFFFFFFFF, 0x123456789ABCD, 7, 0x8000000000000, 0xFEDCBA9876543]
        [0xFFFFFFFFFFFFF, 0xFFFFFFFFFFFFF, 0xFFFFFFFFFFFFF, 0xFFFFFFFFFFFFF, 0xFFFFFFFFFFFFF] ! 1 < 2 ^ 52
   \<and> fe_mul_karatsuba_opt [0xFFFFFFFFFFFFF, 0x123456789ABCD, 7, 0x8000000000000, 0xFEDCBA9876543]
        [0xFFFFFFFFFFFFF, 0xFFFFFFFFFFFFF, 0xFFFFFFFFFFFFF, 0xFFFFFFFFFFFFF, 0xFFFFFFFFFFFFF] ! 2 < 2 ^ 52
   \<and> fe_mul_karatsuba_opt [0xFFFFFFFFFFFFF, 0x123456789ABCD, 7, 0x8000000000000, 0xFEDCBA9876543]
        [0xFFFFFFFFFFFFF, 0xFFFFFFFFFFFFF, 0xFFFFFFFFFFFFF, 0xFFFFFFFFFFFFF, 0xFFFFFFFFFFFFF] ! 3 < 2 ^ 52"
  by (rule conjI [OF fe_valid_xs conjI [OF fe_valid_max
        low_limbs_below_2p52 [OF fe_valid_xs fe_valid_max]]])

text \<open>
  \<^bold>\<open>C4\<close> as stated: for some pair of valid inputs the top output limb \<open>r[4]\<close> is at
  least \<open>2^52\<close>. Both bodies store \<open>r[4]\<close> through the same 52-bit mask as the other
  limbs, so no such pair exists, for either multiplier.
\<close>

theorem top_limb_reaching_2p52_refuted:
  "\<not> (\<exists>a b. fe_valid a \<and> fe_valid b
        \<and> (2 ^ 52 \<le> fe_mul_schoolbook a b ! 4 \<or> 2 ^ 52 \<le> fe_mul_karatsuba_opt a b ! 4))"
proof
  assume "\<exists>a b. fe_valid a \<and> fe_valid b
        \<and> (2 ^ 52 \<le> fe_mul_schoolbook a b ! 4 \<or> 2 ^ 52 \<le> fe_mul_karatsuba_opt a b ! 4)"
  then obtain a b
    where "2 ^ 52 \<le> fe_mul_schoolbook a b ! 4 \<or> 2 ^ 52 \<le> fe_mul_karatsuba_opt a b ! 4"
    by blast
  moreover have "fe_mul_schoolbook a b ! 4 < 2 ^ 52"
    by (rule schoolbook_limb_lt) simp
  moreover have "fe_mul_karatsuba_opt a b ! 4 < 2 ^ 52"
    by (rule karatsuba_limb_lt) simp
  ultimately show False
    by (blast dest: leD)
qed

text \<open>
  \<^bold>\<open>C4\<close>, amended. For every pair of inputs the top output limb is the top accumulator
  (\<^verbatim>\<open>tmp[4]\<close>, respectively \<^verbatim>\<open>c4\<close>, after the carry out of limb 3 has been added)
  masked to its low 52 bits, hence strictly below \<open>2^52\<close>; and for some pair of valid
  inputs that accumulator itself is at least \<open>2^52\<close>. What the accumulator holds above
  bit 51 is discarded, not carried into a further limb.
\<close>

theorem top_accumulator_truncated:
  "(\<forall>a b. fe_mul_schoolbook a b ! 4 = ucast (sb_tmp (schoolbook_run a b) ! 4 AND ucast MASK52)
        \<and> fe_mul_karatsuba_opt a b ! 4 = ucast (k_c4 (karatsuba_run a b) AND ucast MASK52)
        \<and> fe_mul_schoolbook a b ! 4 < 2 ^ 52
        \<and> fe_mul_karatsuba_opt a b ! 4 < 2 ^ 52)
   \<and> (\<exists>a b. fe_valid a \<and> fe_valid b
        \<and> 2 ^ 52 \<le> sb_tmp (schoolbook_run a b) ! 4
        \<and> 2 ^ 52 \<le> k_c4 (karatsuba_run a b))"
proof (intro conjI allI)
  fix a b
  show "fe_mul_schoolbook a b ! 4 = ucast (sb_tmp (schoolbook_run a b) ! 4 AND ucast MASK52)"
    by (rule schoolbook_top)
  show "fe_mul_karatsuba_opt a b ! 4 = ucast (k_c4 (karatsuba_run a b) AND ucast MASK52)"
    by (rule karatsuba_top)
  show "fe_mul_schoolbook a b ! 4 < 2 ^ 52"
    by (rule schoolbook_limb_lt) simp
  show "fe_mul_karatsuba_opt a b ! 4 < 2 ^ 52"
    by (rule karatsuba_limb_lt) simp
next
  show "\<exists>a b. fe_valid a \<and> fe_valid b
        \<and> 2 ^ 52 \<le> sb_tmp (schoolbook_run a b) ! 4
        \<and> 2 ^ 52 \<le> k_c4 (karatsuba_run a b)"
    using fe_valid_max schoolbook_top_max karatsuba_top_max by blast
qed

text \<open>
  \<^bold>\<open>C5\<close> Dead high-order work. For every pair of inputs, the Karatsuba body without
  \<open>c5\<close>, \<open>c6\<close>, \<open>c7\<close>, \<open>c8\<close> and without the carry folded into \<open>c5\<close>, and the
  schoolbook body without the assignments to \<^verbatim>\<open>tmp[5..8]\<close>, write the same five output
  limbs as the original functions.
\<close>

theorem dead_work_is_unobservable:
  "fe_mul_karatsuba_lean a b = fe_mul_karatsuba_opt a b
   \<and> fe_mul_schoolbook_lean a b = fe_mul_schoolbook a b"
  by (simp only: karatsuba_lean_chain karatsuba_chain schoolbook_lean_chain schoolbook_chain)

text \<open>
  \<^bold>\<open>C6\<close> Zero absorption. For every valid \<open>b\<close>, multiplying the all-zero operand by
  \<open>b\<close> gives the all-zero result, with both multipliers.
\<close>

theorem zero_absorption:
  assumes "fe_valid b"
  shows "fe_mul_schoolbook [0, 0, 0, 0, 0] b = [0, 0, 0, 0, 0]
       \<and> fe_mul_karatsuba_opt [0, 0, 0, 0, 0] b = [0, 0, 0, 0, 0]"
  unfolding schoolbook_chain karatsuba_chain Let_def
  by (simp add: carry_chain_def)

theorem zero_absorption_witness:
  "fe_valid [0xFFFFFFFFFFFFF, 0xFFFFFFFFFFFFF, 0xFFFFFFFFFFFFF, 0xFFFFFFFFFFFFF, 0xFFFFFFFFFFFFF]
   \<and> fe_mul_schoolbook [0, 0, 0, 0, 0] [0xFFFFFFFFFFFFF, 0xFFFFFFFFFFFFF, 0xFFFFFFFFFFFFF, 0xFFFFFFFFFFFFF, 0xFFFFFFFFFFFFF] = [0, 0, 0, 0, 0]
   \<and> fe_mul_karatsuba_opt [0, 0, 0, 0, 0] [0xFFFFFFFFFFFFF, 0xFFFFFFFFFFFFF, 0xFFFFFFFFFFFFF, 0xFFFFFFFFFFFFF, 0xFFFFFFFFFFFFF] = [0, 0, 0, 0, 0]"
  by (rule conjI [OF fe_valid_max zero_absorption [OF fe_valid_max]])

text \<open>
  \<^bold>\<open>C7\<close> Identity-like. For every valid \<open>a\<close>, multiplying \<open>a\<close> by the operand
  \<open>(1,0,0,0,0)\<close> returns \<open>a\<close> limb for limb, with both multipliers.
\<close>

theorem identity_operand:
  assumes "fe_valid a"
  shows "fe_mul_schoolbook a [1, 0, 0, 0, 0] = a \<and> fe_mul_karatsuba_opt a [1, 0, 0, 0, 0] = a"
proof -
  from assms obtain a0 a1 a2 a3 a4 where a: "a = [a0, a1, a2, a3, a4]"
    and bnd: "unat a0 < 2 ^ 52" "unat a1 < 2 ^ 52" "unat a2 < 2 ^ 52"
      "unat a3 < 2 ^ 52" "unat a4 < 2 ^ 52"
    by (rule fe_validE)
  have "fe_mul_schoolbook a [1, 0, 0, 0, 0]
      = carry_chain (ucast a0) (ucast a1) (ucast a2) (ucast a3) (ucast a4)"
    unfolding schoolbook_chain a by simp
  then have sb: "fe_mul_schoolbook a [1, 0, 0, 0, 0] = a"
    using bnd by (simp only: carry_chain_limbs a)
  have "fe_mul_karatsuba_opt a [1, 0, 0, 0, 0] = fe_mul_schoolbook a [1, 0, 0, 0, 0]"
    using assms by (intro karatsuba_eq_schoolbook_nowrap fe_valid_nowrap) (simp_all add: fe_valid_def)
  with sb show ?thesis
    by simp
qed

theorem identity_operand_witness:
  "fe_valid [0xFFFFFFFFFFFFF, 0x123456789ABCD, 7, 0x8000000000000, 0xFEDCBA9876543]
   \<and> fe_mul_schoolbook [0xFFFFFFFFFFFFF, 0x123456789ABCD, 7, 0x8000000000000, 0xFEDCBA9876543] [1, 0, 0, 0, 0] = [0xFFFFFFFFFFFFF, 0x123456789ABCD, 7, 0x8000000000000, 0xFEDCBA9876543]
   \<and> fe_mul_karatsuba_opt [0xFFFFFFFFFFFFF, 0x123456789ABCD, 7, 0x8000000000000, 0xFEDCBA9876543] [1, 0, 0, 0, 0] = [0xFFFFFFFFFFFFF, 0x123456789ABCD, 7, 0x8000000000000, 0xFEDCBA9876543]"
  by (rule conjI [OF fe_valid_xs identity_operand [OF fe_valid_xs]])

text \<open>
  \<^bold>\<open>C8\<close> The literal end-to-end vector. With the operands of \<^verbatim>\<open>main\<close> masked to their
  low 52 bits on load, both multipliers give the identical five-limb result; its limbs
  are listed, least significant first.
\<close>

theorem masked_vector_agrees:
  "fe_mul_schoolbook (map (\<lambda>x. x AND MASK52) main_a) (map (\<lambda>x. x AND MASK52) main_b)
     = fe_mul_karatsuba_opt (map (\<lambda>x. x AND MASK52) main_a) (map (\<lambda>x. x AND MASK52) main_b)
   \<and> fe_mul_schoolbook (map (\<lambda>x. x AND MASK52) main_a) (map (\<lambda>x. x AND MASK52) main_b)
     = [0x94F918F48BDF0, 0x30ECA8641FDBA, 0xB851EB851EB86, 0xFA4FA4FA4FA50, 0xD4C3B2A1907F7]"
  unfolding schoolbook_main_masked karatsuba_main_masked by simp

text \<open>
  \<^bold>\<open>C9\<close> For every pair of valid inputs the top output limb \<open>r[4]\<close> written by either
  multiplier is strictly below \<open>2^52\<close> as well, since it is stored through the 52-bit
  mask; so all five output limbs are below \<open>2^52\<close>, and the output is again a valid
  field element.
\<close>

theorem top_limb_below_2p52:
  assumes "fe_valid a" and "fe_valid b"
  shows "fe_mul_schoolbook a b ! 4 < 2 ^ 52 \<and> fe_mul_karatsuba_opt a b ! 4 < 2 ^ 52
       \<and> fe_valid (fe_mul_schoolbook a b) \<and> fe_valid (fe_mul_karatsuba_opt a b)"
  by (intro conjI schoolbook_limb_lt karatsuba_limb_lt schoolbook_valid karatsuba_valid) simp_all

theorem top_limb_below_2p52_witness:
  "fe_valid [0xFFFFFFFFFFFFF, 0x123456789ABCD, 7, 0x8000000000000, 0xFEDCBA9876543]
   \<and> fe_valid [0xFFFFFFFFFFFFF, 0xFFFFFFFFFFFFF, 0xFFFFFFFFFFFFF, 0xFFFFFFFFFFFFF, 0xFFFFFFFFFFFFF]
   \<and> fe_mul_schoolbook [0xFFFFFFFFFFFFF, 0x123456789ABCD, 7, 0x8000000000000, 0xFEDCBA9876543] [0xFFFFFFFFFFFFF, 0xFFFFFFFFFFFFF, 0xFFFFFFFFFFFFF, 0xFFFFFFFFFFFFF, 0xFFFFFFFFFFFFF] ! 4 < 2 ^ 52
   \<and> fe_mul_karatsuba_opt [0xFFFFFFFFFFFFF, 0x123456789ABCD, 7, 0x8000000000000, 0xFEDCBA9876543] [0xFFFFFFFFFFFFF, 0xFFFFFFFFFFFFF, 0xFFFFFFFFFFFFF, 0xFFFFFFFFFFFFF, 0xFFFFFFFFFFFFF] ! 4 < 2 ^ 52
   \<and> fe_valid (fe_mul_schoolbook [0xFFFFFFFFFFFFF, 0x123456789ABCD, 7, 0x8000000000000, 0xFEDCBA9876543] [0xFFFFFFFFFFFFF, 0xFFFFFFFFFFFFF, 0xFFFFFFFFFFFFF, 0xFFFFFFFFFFFFF, 0xFFFFFFFFFFFFF])
   \<and> fe_valid (fe_mul_karatsuba_opt [0xFFFFFFFFFFFFF, 0x123456789ABCD, 7, 0x8000000000000, 0xFEDCBA9876543] [0xFFFFFFFFFFFFF, 0xFFFFFFFFFFFFF, 0xFFFFFFFFFFFFF, 0xFFFFFFFFFFFFF, 0xFFFFFFFFFFFFF])"
  by (rule conjI [OF fe_valid_xs conjI [OF fe_valid_max
        top_limb_below_2p52 [OF fe_valid_xs fe_valid_max]]])

text \<open>
  \<^bold>\<open>C10\<close> The harness's actual operands. The arrays of \<^verbatim>\<open>main\<close> are passed
  unmasked and violate the input invariant (limbs at or above \<open>2^52\<close>); on them the two
  multipliers still write identical outputs, and the comparison loop leaves \<open>ok = 1\<close>.
\<close>

theorem raw_harness_vector_agrees:
  "\<not> fe_valid main_a \<and> \<not> fe_valid main_b
   \<and> fe_mul_schoolbook main_a main_b = fe_mul_karatsuba_opt main_a main_b
   \<and> main_ok = 1"
proof -
  have "\<not> fe_valid main_a" "\<not> fe_valid main_b"
    by (simp_all add: fe_valid_def main_a_def main_b_def)
  moreover have "main_ok = 1"
    unfolding main_ok_def schoolbook_main karatsuba_main Let_def
    by (simp add: upt_conv_Cons)
  ultimately show ?thesis
    by (simp only: schoolbook_main karatsuba_main simp_thms)
qed

end
